theory Spec2Isabelle
  imports Main "HOL-Library.AList" "HOL-Library.Word"
begin

section \<open>Values, errors and the environment\<close>

text \<open>
  The service of \<^verbatim>\<open>main.py\<close> keeps two module-level dictionaries, \<^verbatim>\<open>animes\<close> and
  \<^verbatim>\<open>characters\<close>, and serves create, list, get and partial-update requests on each.
  A UUID is a 128-bit number; a \<^verbatim>\<open>datetime\<close> is a point on the clock, counted in
  microseconds. Python's \<^verbatim>\<open>None\<close> is \<open>None\<close> of an option type.
\<close>

type_synonym UUID = "128 word"
type_synonym datetime = nat

text \<open>
  What a handler can raise: the \<^verbatim>\<open>HTTPException\<close> of the handlers, with its status code
  and detail; the \<^verbatim>\<open>ValidationError\<close> of a Pydantic model constructor given a value
  that its annotation refuses; the \<^verbatim>\<open>AttributeError\<close> of reading an attribute the object
  does not have (with the attribute's name); the \<^verbatim>\<open>KeyError\<close> of a dictionary lookup.
\<close>

datatype error =
    HTTPException nat string
  | ValidationError
  | AttributeError string
  | KeyError

text \<open>
  A key of a keyword dictionary, or a field of a request body read with
  \<^verbatim>\<open>exclude_unset=True\<close>: absent, or given with a value.
\<close>

datatype 'a kwarg = Unset | Given 'a

text \<open>
  The default factories \<^verbatim>\<open>uuid4\<close> and \<^verbatim>\<open>datetime.utcnow\<close> read the outside world. Each
  field with a factory calls it on its own, so the environment carries one result per
  field: the identifier minted for a model's own \<^verbatim>\<open>id\<close>, the identifier minted for the
  embedded character at a position of a list, and the two clock readings of
  \<^verbatim>\<open>created_at\<close> and \<^verbatim>\<open>updated_at\<close>. A factory runs only when its key is absent.
\<close>

record env =
  mint_id :: UUID
  mint_char_id :: "nat \<Rightarrow> UUID"
  now_created :: datetime
  now_updated :: datetime

section \<open>Character models (models/characters.py)\<close>

text \<open>
  \<^verbatim>\<open>CharacterBase\<close>, and \<^verbatim>\<open>CharacterCreate\<close> which adds no field. \<^verbatim>\<open>gender\<close> is
  annotated \<^verbatim>\<open>str\<close> with the default \<^verbatim>\<open>None\<close>; Pydantic does not validate a default, so
  an object built from input without \<^verbatim>\<open>gender\<close> holds \<^verbatim>\<open>None\<close> there.
\<close>

record CharacterBase =
  cb_id :: UUID
  cb_name :: string
  cb_role :: string
  cb_alias :: "string option"
  cb_gender :: "string option"
  cb_ability :: string

type_synonym CharacterCreate = CharacterBase

text \<open>
  \<^verbatim>\<open>CharacterUpdate\<close>, seen through \<^verbatim>\<open>model_dump(exclude_unset=True)\<close>: each field is
  unset, or set by the body to a value. \<^verbatim>\<open>Optional[str]\<close> admits an explicit null;
  \<^verbatim>\<open>gender\<close>, annotated \<^verbatim>\<open>str\<close>, does not.
\<close>

record CharacterUpdate =
  cu_name :: "string option kwarg"
  cu_role :: "string option kwarg"
  cu_alias :: "string option kwarg"
  cu_gender :: "string kwarg"
  cu_ability :: "string option kwarg"

text \<open>
  \<^verbatim>\<open>CharacterRead\<close>. Both handlers that build one pass a dictionary holding every key of
  \<^verbatim>\<open>CharacterBase\<close>, so each value, \<^verbatim>\<open>gender\<close> included, has been validated against its
  annotation.
\<close>

record CharacterRead =
  cr_id :: UUID
  cr_name :: string
  cr_role :: string
  cr_alias :: "string option"
  cr_gender :: string
  cr_ability :: string
  cr_created_at :: datetime
  cr_updated_at :: datetime

text \<open>
  The keyword dictionary handed to \<^verbatim>\<open>CharacterRead(**...)\<close>: the six keys of
  \<^verbatim>\<open>CharacterBase\<close>, always there, with values that may be \<^verbatim>\<open>None\<close>, and the two
  timestamps, there or not.
\<close>

record CharacterRead_kwargs =
  kw_id :: UUID
  kw_name :: "string option"
  kw_role :: "string option"
  kw_alias :: "string option"
  kw_gender :: "string option"
  kw_ability :: "string option"
  kw_created_at :: "datetime kwarg"
  kw_updated_at :: "datetime kwarg"

text \<open>\<^verbatim>\<open>character.model_dump()\<close> of a \<^verbatim>\<open>CharacterCreate\<close>: no timestamp keys.\<close>

definition CharacterCreate_model_dump :: "CharacterCreate \<Rightarrow> CharacterRead_kwargs" where
  "CharacterCreate_model_dump c =
     \<lparr>kw_id = cb_id c, kw_name = Some (cb_name c), kw_role = Some (cb_role c),
      kw_alias = cb_alias c, kw_gender = cb_gender c, kw_ability = Some (cb_ability c),
      kw_created_at = Unset, kw_updated_at = Unset\<rparr>"

text \<open>\<^verbatim>\<open>characters[character_id].model_dump()\<close> of a stored \<^verbatim>\<open>CharacterRead\<close>.\<close>

definition CharacterRead_model_dump :: "CharacterRead \<Rightarrow> CharacterRead_kwargs" where
  "CharacterRead_model_dump r =
     \<lparr>kw_id = cr_id r, kw_name = Some (cr_name r), kw_role = Some (cr_role r),
      kw_alias = cr_alias r, kw_gender = Some (cr_gender r), kw_ability = Some (cr_ability r),
      kw_created_at = Given (cr_created_at r), kw_updated_at = Given (cr_updated_at r)\<rparr>"

text \<open>
  \<^verbatim>\<open>stored.update(update.model_dump(exclude_unset=True))\<close>: a key the body set replaces
  the stored value, every other key stays. \<^verbatim>\<open>CharacterUpdate\<close> has no \<^verbatim>\<open>id\<close>,
  \<^verbatim>\<open>created_at\<close> or \<^verbatim>\<open>updated_at\<close> field.
\<close>

definition overwrite :: "'a \<Rightarrow> 'a kwarg \<Rightarrow> 'a" where
  "overwrite old f = (case f of Unset \<Rightarrow> old | Given v \<Rightarrow> v)"

definition CharacterUpdate_apply :: "CharacterRead_kwargs \<Rightarrow> CharacterUpdate \<Rightarrow> CharacterRead_kwargs" where
  "CharacterUpdate_apply stored upd =
     stored\<lparr>kw_name := overwrite (kw_name stored) (cu_name upd),
            kw_role := overwrite (kw_role stored) (cu_role upd),
            kw_alias := overwrite (kw_alias stored) (cu_alias upd),
            kw_gender := (case cu_gender upd of Unset \<Rightarrow> kw_gender stored | Given g \<Rightarrow> Some g),
            kw_ability := overwrite (kw_ability stored) (cu_ability upd)\<rparr>"

text \<open>
  \<^verbatim>\<open>CharacterRead(**kwargs)\<close>: \<^verbatim>\<open>name\<close>, \<^verbatim>\<open>role\<close>, \<^verbatim>\<open>gender\<close> and \<^verbatim>\<open>ability\<close> are annotated
  \<^verbatim>\<open>str\<close> and refuse \<^verbatim>\<open>None\<close>; \<^verbatim>\<open>alias\<close> is \<^verbatim>\<open>Optional[str]\<close>; an absent timestamp is
  read from the clock by its own default factory.
\<close>

definition CharacterRead_init :: "env \<Rightarrow> CharacterRead_kwargs \<Rightarrow> error + CharacterRead" where
  "CharacterRead_init e kw =
     (case (kw_name kw, kw_role kw, kw_gender kw, kw_ability kw) of
        (Some n, Some r, Some g, Some a) \<Rightarrow>
          Inr \<lparr>cr_id = kw_id kw, cr_name = n, cr_role = r, cr_alias = kw_alias kw,
               cr_gender = g, cr_ability = a,
               cr_created_at = overwrite (now_created e) (kw_created_at kw),
               cr_updated_at = overwrite (now_updated e) (kw_updated_at kw)\<rparr>
      | _ \<Rightarrow> Inl ValidationError)"

section \<open>Anime models (models/anime.py)\<close>

text \<open>\<^verbatim>\<open>AnimeBase\<close>, and \<^verbatim>\<open>AnimeCreate\<close> which adds no field; there is no \<^verbatim>\<open>id\<close> here.\<close>

record AnimeBase =
  ab_title :: string
  ab_genre :: string
  ab_seasons :: string
  ab_rating :: "string option"
  ab_status :: string
  ab_streaming :: string
  ab_characters :: "CharacterBase list"

type_synonym AnimeCreate = AnimeBase

text \<open>
  \<^verbatim>\<open>AnimeUpdate\<close>, seen through \<^verbatim>\<open>model_dump(exclude_unset=True)\<close>. The flag excludes
  unset fields of nested models too, so each embedded character of the body comes with
  what its own set of fields says about \<^verbatim>\<open>id\<close>: \<open>True\<close> when the body gave the
  identifier, \<open>False\<close> when the factory minted it while the body was parsed. Of the other
  fields, \<^verbatim>\<open>name\<close>, \<^verbatim>\<open>role\<close> and \<^verbatim>\<open>ability\<close> are required, \<^verbatim>\<open>gender\<close> is set exactly when
  it is not \<^verbatim>\<open>None\<close>, and an unset \<^verbatim>\<open>alias\<close> is \<^verbatim>\<open>None\<close> either way.
\<close>

record AnimeUpdate =
  au_title :: "string option kwarg"
  au_genre :: "string option kwarg"
  au_seasons :: "string option kwarg"
  au_rating :: "string option kwarg"
  au_status :: "string option kwarg"
  au_streaming :: "string option kwarg"
  au_characters :: "(CharacterBase \<times> bool) list option kwarg"

text \<open>\<^verbatim>\<open>AnimeRead\<close>: the fields of \<^verbatim>\<open>AnimeBase\<close>, then \<^verbatim>\<open>id\<close> and the two timestamps.\<close>

record AnimeRead =
  ar_title :: string
  ar_genre :: string
  ar_seasons :: string
  ar_rating :: "string option"
  ar_status :: string
  ar_streaming :: string
  ar_characters :: "CharacterBase list"
  ar_id :: UUID
  ar_created_at :: datetime
  ar_updated_at :: datetime

text \<open>
  The dictionary of one embedded character, as \<^verbatim>\<open>model_dump\<close> leaves it inside the
  dictionary of an anime: \<^verbatim>\<open>id\<close> and \<^verbatim>\<open>gender\<close> are the keys whose absence differs from
  their presence with the default value.
\<close>

record CharacterBase_kwargs =
  ck_id :: "UUID kwarg"
  ck_name :: string
  ck_role :: string
  ck_alias :: "string option"
  ck_gender :: "string option kwarg"
  ck_ability :: string

definition CharacterBase_model_dump :: "CharacterBase \<Rightarrow> CharacterBase_kwargs" where
  "CharacterBase_model_dump c =
     \<lparr>ck_id = Given (cb_id c), ck_name = cb_name c, ck_role = cb_role c,
      ck_alias = cb_alias c, ck_gender = Given (cb_gender c), ck_ability = cb_ability c\<rparr>"

definition CharacterBase_model_dump_exclude_unset :: "CharacterBase \<times> bool \<Rightarrow> CharacterBase_kwargs" where
  "CharacterBase_model_dump_exclude_unset cf =
     (case cf of (c, id_set) \<Rightarrow>
       \<lparr>ck_id = (if id_set then Given (cb_id c) else Unset),
        ck_name = cb_name c, ck_role = cb_role c, ck_alias = cb_alias c,
        ck_gender = (case cb_gender c of None \<Rightarrow> Unset | Some g \<Rightarrow> Given (Some g)),
        ck_ability = cb_ability c\<rparr>)"

text \<open>
  Validation of one embedded character, at position \<open>k\<close> of its list: a \<^verbatim>\<open>gender\<close> key
  holding \<^verbatim>\<open>None\<close> is refused, an absent one takes the unvalidated default \<^verbatim>\<open>None\<close>; an
  absent \<^verbatim>\<open>id\<close> is minted.
\<close>

definition CharacterBase_init :: "env \<Rightarrow> nat \<Rightarrow> CharacterBase_kwargs \<Rightarrow> error + CharacterBase" where
  "CharacterBase_init e k kw =
     (case ck_gender kw of
        Given None \<Rightarrow> Inl ValidationError
      | _ \<Rightarrow>
          Inr \<lparr>cb_id = overwrite (mint_char_id e k) (ck_id kw),
               cb_name = ck_name kw, cb_role = ck_role kw, cb_alias = ck_alias kw,
               cb_gender = overwrite None (ck_gender kw), cb_ability = ck_ability kw\<rparr>)"

fun CharacterBase_list_init :: "env \<Rightarrow> nat \<Rightarrow> CharacterBase_kwargs list \<Rightarrow> error + CharacterBase list" where
  "CharacterBase_list_init e k [] = Inr []"
| "CharacterBase_list_init e k (kw # kws) =
     (case CharacterBase_init e k kw of
        Inl err \<Rightarrow> Inl err
      | Inr c \<Rightarrow>
          (case CharacterBase_list_init e (Suc k) kws of
             Inl err \<Rightarrow> Inl err
           | Inr cs \<Rightarrow> Inr (c # cs)))"

text \<open>The keyword dictionary handed to \<^verbatim>\<open>AnimeRead(**...)\<close>.\<close>

record AnimeRead_kwargs =
  ak_title :: "string option"
  ak_genre :: "string option"
  ak_seasons :: "string option"
  ak_rating :: "string option"
  ak_status :: "string option"
  ak_streaming :: "string option"
  ak_characters :: "CharacterBase_kwargs list option"
  ak_id :: "UUID kwarg"
  ak_created_at :: "datetime kwarg"
  ak_updated_at :: "datetime kwarg"

text \<open>\<^verbatim>\<open>anime.model_dump()\<close> of an \<^verbatim>\<open>AnimeCreate\<close>: no \<^verbatim>\<open>id\<close>, no timestamps.\<close>

definition AnimeCreate_model_dump :: "AnimeCreate \<Rightarrow> AnimeRead_kwargs" where
  "AnimeCreate_model_dump a =
     \<lparr>ak_title = Some (ab_title a), ak_genre = Some (ab_genre a),
      ak_seasons = Some (ab_seasons a), ak_rating = ab_rating a,
      ak_status = Some (ab_status a), ak_streaming = Some (ab_streaming a),
      ak_characters = Some (map CharacterBase_model_dump (ab_characters a)),
      ak_id = Unset, ak_created_at = Unset, ak_updated_at = Unset\<rparr>"

definition AnimeRead_model_dump :: "AnimeRead \<Rightarrow> AnimeRead_kwargs" where
  "AnimeRead_model_dump r =
     \<lparr>ak_title = Some (ar_title r), ak_genre = Some (ar_genre r),
      ak_seasons = Some (ar_seasons r), ak_rating = ar_rating r,
      ak_status = Some (ar_status r), ak_streaming = Some (ar_streaming r),
      ak_characters = Some (map CharacterBase_model_dump (ar_characters r)),
      ak_id = Given (ar_id r), ak_created_at = Given (ar_created_at r),
      ak_updated_at = Given (ar_updated_at r)\<rparr>"

text \<open>\<^verbatim>\<open>stored.update(update.model_dump(exclude_unset=True))\<close> for an anime.\<close>

definition AnimeUpdate_apply :: "AnimeRead_kwargs \<Rightarrow> AnimeUpdate \<Rightarrow> AnimeRead_kwargs" where
  "AnimeUpdate_apply stored upd =
     stored\<lparr>ak_title := overwrite (ak_title stored) (au_title upd),
            ak_genre := overwrite (ak_genre stored) (au_genre upd),
            ak_seasons := overwrite (ak_seasons stored) (au_seasons upd),
            ak_rating := overwrite (ak_rating stored) (au_rating upd),
            ak_status := overwrite (ak_status stored) (au_status upd),
            ak_streaming := overwrite (ak_streaming stored) (au_streaming upd),
            ak_characters :=
              (case au_characters upd of
                 Unset \<Rightarrow> ak_characters stored
               | Given None \<Rightarrow> None
               | Given (Some cs) \<Rightarrow> Some (map CharacterBase_model_dump_exclude_unset cs))\<rparr>"

text \<open>
  \<^verbatim>\<open>AnimeRead(**kwargs)\<close>: the five \<^verbatim>\<open>str\<close> fields and the list refuse \<^verbatim>\<open>None\<close>, every
  embedded character is validated, and an absent \<^verbatim>\<open>id\<close> or timestamp comes from its
  default factory.
\<close>

definition AnimeRead_init :: "env \<Rightarrow> AnimeRead_kwargs \<Rightarrow> error + AnimeRead" where
  "AnimeRead_init e kw =
     (case (ak_title kw, ak_genre kw, ak_seasons kw, ak_status kw, ak_streaming kw, ak_characters kw) of
        (Some t, Some g, Some n, Some st, Some sm, Some kws) \<Rightarrow>
          (case CharacterBase_list_init e 0 kws of
             Inl err \<Rightarrow> Inl err
           | Inr cs \<Rightarrow>
               Inr \<lparr>ar_title = t, ar_genre = g, ar_seasons = n, ar_rating = ak_rating kw,
                    ar_status = st, ar_streaming = sm, ar_characters = cs,
                    ar_id = overwrite (mint_id e) (ak_id kw),
                    ar_created_at = overwrite (now_created e) (ak_created_at kw),
                    ar_updated_at = overwrite (now_updated e) (ak_updated_at kw)\<rparr>)
      | _ \<Rightarrow> Inl ValidationError)"

section \<open>The stores and the handlers (main.py)\<close>

text \<open>
  A Python dictionary keeps its keys in insertion order: it is a list of pairs, read
  with \<open>map_of\<close>; \<^verbatim>\<open>d[k] = v\<close> is \<open>AList.update\<close>, which replaces the value of a key in
  place and appends a new key at the end; \<^verbatim>\<open>list(d.values())\<close> is \<open>map snd\<close>.
\<close>

record state =
  animes :: "(UUID \<times> AnimeRead) list"
  characters :: "(UUID \<times> CharacterRead) list"

definition init_state :: state where
  "init_state = \<lparr>animes = [], characters = []\<rparr>"

subsection \<open>Character endpoints\<close>

definition create_character :: "env \<Rightarrow> state \<Rightarrow> CharacterCreate \<Rightarrow> error + state \<times> CharacterRead" where
  "create_character e s character =
     (if map_of (characters s) (cb_id character) \<noteq> None
      then Inl (HTTPException 400 ''Character with this ID already exists'')
      else
        (case CharacterRead_init e (CharacterCreate_model_dump character) of
           Inl err \<Rightarrow> Inl err
         | Inr r \<Rightarrow>
             (let s' = s\<lparr>characters := AList.update (cb_id character) r (characters s)\<rparr>
              in case map_of (characters s') (cb_id character) of
                   None \<Rightarrow> Inl KeyError
                 | Some v \<Rightarrow> Inr (s', v))))"

definition list_characters ::
  "state \<Rightarrow> string option \<Rightarrow> string option \<Rightarrow> string option \<Rightarrow> string option \<Rightarrow> string option
     \<Rightarrow> CharacterRead list" where
  "list_characters s name role alias gender ability =
     (let results = map snd (characters s);
          results = (case name of None \<Rightarrow> results
                     | Some v \<Rightarrow> filter (\<lambda>a. cr_name a = v) results);
          results = (case role of None \<Rightarrow> results
                     | Some v \<Rightarrow> filter (\<lambda>a. cr_role a = v) results);
          results = (case alias of None \<Rightarrow> results
                     | Some v \<Rightarrow> filter (\<lambda>a. cr_alias a = Some v) results);
          results = (case gender of None \<Rightarrow> results
                     | Some v \<Rightarrow> filter (\<lambda>a. cr_gender a = v) results);
          results = (case ability of None \<Rightarrow> results
                     | Some v \<Rightarrow> filter (\<lambda>a. cr_ability a = v) results)
      in results)"

definition get_character :: "state \<Rightarrow> UUID \<Rightarrow> error + CharacterRead" where
  "get_character s character_id =
     (case map_of (characters s) character_id of
        None \<Rightarrow> Inl (HTTPException 404 ''character not found'')
      | Some r \<Rightarrow> Inr r)"

definition update_character ::
  "env \<Rightarrow> state \<Rightarrow> UUID \<Rightarrow> CharacterUpdate \<Rightarrow> error + state \<times> CharacterRead" where
  "update_character e s character_id upd =
     (case map_of (characters s) character_id of
        None \<Rightarrow> Inl (HTTPException 404 ''Character not found'')
      | Some old \<Rightarrow>
          (let stored = CharacterRead_model_dump old;
               stored = CharacterUpdate_apply stored upd
           in case CharacterRead_init e stored of
                Inl err \<Rightarrow> Inl err
              | Inr r \<Rightarrow>
                  (let s' = s\<lparr>characters := AList.update character_id r (characters s)\<rparr>
                   in case map_of (characters s') character_id of
                        None \<Rightarrow> Inl KeyError
                      | Some v \<Rightarrow> Inr (s', v))))"

subsection \<open>Anime endpoints\<close>

definition create_anime :: "env \<Rightarrow> state \<Rightarrow> AnimeCreate \<Rightarrow> error + state \<times> AnimeRead" where
  "create_anime e s anime =
     (case AnimeRead_init e (AnimeCreate_model_dump anime) of
        Inl err \<Rightarrow> Inl err
      | Inr anime_read \<Rightarrow>
          Inr (s\<lparr>animes := AList.update (ar_id anime_read) anime_read (animes s)\<rparr>, anime_read))"

text \<open>
  A list comprehension whose condition can raise: the first element on which it does
  ends the whole comprehension.
\<close>

fun filter_raising :: "('a \<Rightarrow> error + bool) \<Rightarrow> 'a list \<Rightarrow> error + 'a list" where
  "filter_raising P [] = Inr []"
| "filter_raising P (x # xs) =
     (case P x of
        Inl err \<Rightarrow> Inl err
      | Inr b \<Rightarrow>
          (case filter_raising P xs of
             Inl err \<Rightarrow> Inl err
           | Inr ys \<Rightarrow> Inr (if b then x # ys else ys)))"

text \<open>\<^verbatim>\<open>p.addresses\<close>: no model of \<^verbatim>\<open>anime.py\<close> declares such a field.\<close>

definition addresses :: "AnimeRead \<Rightarrow> error + CharacterBase list" where
  "addresses p = Inl (AttributeError ''addresses'')"

definition list_animes ::
  "state \<Rightarrow> string option \<Rightarrow> string option \<Rightarrow> string option \<Rightarrow> string option \<Rightarrow> string option
     \<Rightarrow> string option \<Rightarrow> string option \<Rightarrow> string option \<Rightarrow> error + AnimeRead list" where
  "list_animes s title genre seasons rating status streaming role gender =
     (let results = map snd (animes s);
          results = (case title of None \<Rightarrow> results
                     | Some v \<Rightarrow> filter (\<lambda>p. ar_title p = v) results);
          results = (case genre of None \<Rightarrow> results
                     | Some v \<Rightarrow> filter (\<lambda>p. ar_genre p = v) results);
          results = (case seasons of None \<Rightarrow> results
                     | Some v \<Rightarrow> filter (\<lambda>p. ar_seasons p = v) results);
          results = (case rating of None \<Rightarrow> results
                     | Some v \<Rightarrow> filter (\<lambda>p. ar_rating p = Some v) results);
          results = (case status of None \<Rightarrow> results
                     | Some v \<Rightarrow> filter (\<lambda>p. ar_status p = v) results);
          results = (case streaming of None \<Rightarrow> results
                     | Some v \<Rightarrow> filter (\<lambda>p. ar_streaming p = v) results);
          results = (case role of None \<Rightarrow> results
                     | Some v \<Rightarrow>
                         filter (\<lambda>p. list_ex (\<lambda>char. cb_role char = v) (ar_characters p)) results)
      in case gender of
           None \<Rightarrow> Inr results
         | Some v \<Rightarrow>
             filter_raising
               (\<lambda>p. case addresses p of
                       Inl err \<Rightarrow> Inl err
                     | Inr chars \<Rightarrow> Inr (list_ex (\<lambda>char. cb_gender char = Some v) chars))
               results)"

definition get_anime :: "state \<Rightarrow> UUID \<Rightarrow> error + AnimeRead" where
  "get_anime s anime_id =
     (case map_of (animes s) anime_id of
        None \<Rightarrow> Inl (HTTPException 404 ''Anime not found'')
      | Some r \<Rightarrow> Inr r)"

definition update_anime :: "env \<Rightarrow> state \<Rightarrow> UUID \<Rightarrow> AnimeUpdate \<Rightarrow> error + state \<times> AnimeRead" where
  "update_anime e s anime_id upd =
     (case map_of (animes s) anime_id of
        None \<Rightarrow> Inl (HTTPException 404 ''Anime not found'')
      | Some old \<Rightarrow>
          (let stored = AnimeRead_model_dump old;
               stored = AnimeUpdate_apply stored upd
           in case AnimeRead_init e stored of
                Inl err \<Rightarrow> Inl err
              | Inr r \<Rightarrow>
                  (let s' = s\<lparr>animes := AList.update anime_id r (animes s)\<rparr>
                   in case map_of (animes s') anime_id of
                        None \<Rightarrow> Inl KeyError
                      | Some v \<Rightarrow> Inr (s', v))))"

subsection \<open>Responses and runs\<close>

text \<open>
  The status FastAPI answers with: the code of the route's decorator when the handler
  returns, the code of an \<^verbatim>\<open>HTTPException\<close> it raises, 500 for any other exception.
\<close>

definition response_status :: "nat \<Rightarrow> error + 'a \<Rightarrow> nat" where
  "response_status ok res =
     (case res of
        Inr _ \<Rightarrow> ok
      | Inl (HTTPException code _) \<Rightarrow> code
      | Inl _ \<Rightarrow> 500)"

text \<open>The eight routes on the two stores, with their arguments.\<close>

datatype request =
    POST_characters CharacterCreate
  | GET_characters "string option" "string option" "string option" "string option" "string option"
  | GET_character UUID
  | PATCH_character UUID CharacterUpdate
  | POST_animes AnimeCreate
  | GET_animes "string option" "string option" "string option" "string option" "string option"
      "string option" "string option" "string option"
  | GET_anime UUID
  | PATCH_anime UUID AnimeUpdate

text \<open>
  The stores after a request: what the handler left when it returned, and the stores as
  they were when it raised, since every handler assigns to its dictionary in its last
  statement but one. The reading routes assign nothing.
\<close>

fun serve :: "env \<Rightarrow> state \<Rightarrow> request \<Rightarrow> state" where
  "serve e s (POST_characters c) =
     (case create_character e s c of Inl _ \<Rightarrow> s | Inr (s', _) \<Rightarrow> s')"
| "serve e s (PATCH_character i u) =
     (case update_character e s i u of Inl _ \<Rightarrow> s | Inr (s', _) \<Rightarrow> s')"
| "serve e s (POST_animes a) =
     (case create_anime e s a of Inl _ \<Rightarrow> s | Inr (s', _) \<Rightarrow> s')"
| "serve e s (PATCH_anime i u) =
     (case update_anime e s i u of Inl _ \<Rightarrow> s | Inr (s', _) \<Rightarrow> s')"
| "serve e s _ = s"

fun serve_all :: "state \<Rightarrow> (env \<times> request) list \<Rightarrow> state" where
  "serve_all s [] = s"
| "serve_all s ((e, req) # reqs) = serve_all (serve e s req) reqs"

inductive reachable :: "state \<Rightarrow> bool" where
  start: "reachable init_state"
| step: "reachable s \<Longrightarrow> reachable (serve e s req)"

fun is_character_request :: "request \<Rightarrow> bool" where
  "is_character_request (POST_characters _) = True"
| "is_character_request (GET_characters _ _ _ _ _) = True"
| "is_character_request (GET_character _) = True"
| "is_character_request (PATCH_character _ _) = True"
| "is_character_request _ = False"

section \<open>Properties named by the specification\<close>

text \<open>
  What the specification asks of a character listing: a record is returned when it
  agrees with every filter that was supplied; a filter that was not supplied asks nothing.
\<close>

definition character_matches ::
  "string option \<Rightarrow> string option \<Rightarrow> string option \<Rightarrow> string option \<Rightarrow> string option
     \<Rightarrow> CharacterRead \<Rightarrow> bool" where
  "character_matches name role alias gender ability a =
     ((case name of None \<Rightarrow> True | Some v \<Rightarrow> cr_name a = v)
      \<and> (case role of None \<Rightarrow> True | Some v \<Rightarrow> cr_role a = v)
      \<and> (case alias of None \<Rightarrow> True | Some v \<Rightarrow> cr_alias a = Some v)
      \<and> (case gender of None \<Rightarrow> True | Some v \<Rightarrow> cr_gender a = v)
      \<and> (case ability of None \<Rightarrow> True | Some v \<Rightarrow> cr_ability a = v))"

text \<open>
  A valid anime payload: every value is one its annotation admits. The only value the
  payload type holds beyond its annotations is a \<^verbatim>\<open>gender\<close> of \<^verbatim>\<open>None\<close> in an embedded
  character, annotated \<^verbatim>\<open>str\<close>.
\<close>

definition valid_AnimeCreate :: "AnimeCreate \<Rightarrow> bool" where
  "valid_AnimeCreate a = list_all (\<lambda>c. cb_gender c \<noteq> None) (ab_characters a)"

text \<open>
  The characters a body supplies, as a reader of the stored anime sees them: in the
  body's order, each as the body gave it, with the identifier minted for its position
  when the body gave none.
\<close>

fun supplied_characters :: "env \<Rightarrow> nat \<Rightarrow> (CharacterBase \<times> bool) list \<Rightarrow> CharacterBase list" where
  "supplied_characters e k [] = []"
| "supplied_characters e k ((c, id_set) # cs) =
     (if id_set then c else c\<lparr>cb_id := mint_char_id e k\<rparr>) # supplied_characters e (Suc k) cs"

text \<open>Keys are unique in each store, and each key is the identifier of its record.\<close>

definition store_ok :: "state \<Rightarrow> bool" where
  "store_ok s =
     (distinct (map fst (characters s)) \<and> list_all (\<lambda>(k, r). cr_id r = k) (characters s)
      \<and> distinct (map fst (animes s)) \<and> list_all (\<lambda>(k, r). ar_id r = k) (animes s))"

text \<open>
  The requests that leave alone the embedded characters of the anime \<open>i\<close>: all but an
  update of \<open>i\<close> whose body sets \<^verbatim>\<open>characters\<close>, and a creation that mints \<open>i\<close> anew.
\<close>

fun keeps_characters :: "UUID \<Rightarrow> env \<times> request \<Rightarrow> bool" where
  "keeps_characters i (e, PATCH_anime j u) = (j \<noteq> i \<or> au_characters u = Unset)"
| "keeps_characters i (e, POST_animes a) = (mint_id e \<noteq> i)"
| "keeps_characters i _ = True"

section \<open>Example requests\<close>

text \<open>
  The payloads of the \<^verbatim>\<open>json_schema_extra\<close> examples of the models, with an environment
  whose two clock readings differ by seven microseconds.
\<close>

definition example_env :: env where
  "example_env = \<lparr>mint_id = 0x99999999999949998999999999999999,
                   mint_char_id = (\<lambda>k. 0x550e8400e29b41d4a716446655440000 + of_nat k),
                   now_created = 1736936430000000, now_updated = 1736936430000007\<rparr>"

definition eren :: CharacterCreate where
  "eren = \<lparr>cb_id = 0x11111111111141118111111111111199, cb_name = ''Eren Yeager'',
           cb_role = ''Protagonist'', cb_alias = Some '''', cb_gender = Some ''Male'',
           cb_ability = ''Attack Titan Power''\<rparr>"

definition eren_read :: CharacterRead where
  "eren_read = \<lparr>cr_id = 0x11111111111141118111111111111199, cr_name = ''Eren Yeager'',
                cr_role = ''Protagonist'', cr_alias = Some '''', cr_gender = ''Male'',
                cr_ability = ''Attack Titan Power'', cr_created_at = 1736936430000000,
                cr_updated_at = 1736936430000007\<rparr>"

definition eren_state :: state where
  "eren_state = \<lparr>animes = [], characters = [(0x11111111111141118111111111111199, eren_read)]\<rparr>"

definition empty_update :: CharacterUpdate where
  "empty_update = \<lparr>cu_name = Unset, cu_role = Unset, cu_alias = Unset, cu_gender = Unset,
                    cu_ability = Unset\<rparr>"

definition sasuke_update :: CharacterUpdate where
  "sasuke_update = \<lparr>cu_name = Given (Some ''Sasuke Uchiha''), cu_role = Given (Some ''Rival''),
                     cu_alias = Unset, cu_gender = Unset, cu_ability = Unset\<rparr>"

definition attack_on_titan :: AnimeCreate where
  "attack_on_titan =
     \<lparr>ab_title = ''Attack on Titan'', ab_genre = ''Action'', ab_seasons = ''4'',
      ab_rating = Some ''5'', ab_status = ''Completed'', ab_streaming = ''Crunchyroll'',
      ab_characters = [eren\<lparr>cb_id := 0x11111111111141118111111111111111\<rparr>]\<rparr>"

definition aot_read :: AnimeRead where
  "aot_read =
     \<lparr>ar_title = ''Attack on Titan'', ar_genre = ''Action'', ar_seasons = ''4'',
      ar_rating = Some ''5'', ar_status = ''Completed'', ar_streaming = ''Crunchyroll'',
      ar_characters = [eren\<lparr>cb_id := 0x11111111111141118111111111111111\<rparr>],
      ar_id = 0x99999999999949998999999999999999,
      ar_created_at = 1736936430000000, ar_updated_at = 1736936430000007\<rparr>"

definition aot_state :: state where
  "aot_state = \<lparr>animes = [(0x99999999999949998999999999999999, aot_read)], characters = []\<rparr>"

definition sasuke :: CharacterBase where
  "sasuke = \<lparr>cb_id = 0xbbbbbbbbbbbb4bbb8bbbbbbbbbbbbbbb, cb_name = ''Sasuke Uchiha'',
             cb_role = ''Rival'', cb_alias = Some '''', cb_gender = Some ''Male'',
             cb_ability = ''Sharingan, Chidori''\<rparr>"

definition no_update :: AnimeUpdate where
  "no_update = \<lparr>au_title = Unset, au_genre = Unset, au_seasons = Unset, au_rating = Unset,
                 au_status = Unset, au_streaming = Unset, au_characters = Unset\<rparr>"

section \<open>The character store\<close>

lemmas character_defs =
  create_character_def update_character_def get_character_def list_characters_def
  CharacterRead_init_def CharacterCreate_model_dump_def CharacterRead_model_dump_def
  CharacterUpdate_apply_def overwrite_def response_status_def init_state_def

lemmas anime_defs =
  create_anime_def update_anime_def get_anime_def list_animes_def
  AnimeRead_init_def AnimeCreate_model_dump_def AnimeRead_model_dump_def AnimeUpdate_apply_def
  CharacterBase_init_def CharacterBase_model_dump_def CharacterBase_model_dump_exclude_unset_def

lemmas example_defs =
  example_env_def eren_def eren_read_def eren_state_def empty_update_def sasuke_update_def
  attack_on_titan_def aot_read_def aot_state_def sasuke_def no_update_def

text \<open>Assigning to a key the dictionary does not hold appends the entry.\<close>

lemma update_fresh: "map_of al k = None \<Longrightarrow> AList.update k v al = al @ [(k, v)]"
  by (induction al) (auto split: if_splits)

lemma list_all_update:
  "list_all P al \<Longrightarrow> P (k, v) \<Longrightarrow> list_all P (AList.update k v al)"
  by (induction al) auto

text \<open>The whole of \<^verbatim>\<open>create_character\<close>, branch by branch.\<close>

lemma create_character_eq:
  "create_character e s c =
     (if map_of (characters s) (cb_id c) \<noteq> None
      then Inl (HTTPException 400 ''Character with this ID already exists'')
      else case cb_gender c of
             None \<Rightarrow> Inl ValidationError
           | Some g \<Rightarrow>
               (let r = \<lparr>cr_id = cb_id c, cr_name = cb_name c, cr_role = cb_role c,
                         cr_alias = cb_alias c, cr_gender = g, cr_ability = cb_ability c,
                         cr_created_at = now_created e, cr_updated_at = now_updated e\<rparr>
                in Inr (s\<lparr>characters := characters s @ [(cb_id c, r)]\<rparr>, r)))"
  by (auto simp: create_character_def CharacterRead_init_def CharacterCreate_model_dump_def
      overwrite_def Let_def update_conv' update_fresh split: option.splits)

lemma create_character_Inr:
  "create_character e s c = Inr (s', r) \<Longrightarrow>
     s' = s\<lparr>characters := AList.update (cb_id c) r (characters s)\<rparr> \<and> cr_id r = cb_id c
     \<and> map_of (characters s) (cb_id c) = None"
  by (auto simp: create_character_def CharacterRead_init_def CharacterCreate_model_dump_def
      Let_def update_conv' split: if_splits option.splits sum.splits)

lemma update_character_eq:
  assumes "map_of (characters s) i = Some old"
  shows "update_character e s i upd =
     (case CharacterRead_init e (CharacterUpdate_apply (CharacterRead_model_dump old) upd) of
        Inl err \<Rightarrow> Inl err
      | Inr r \<Rightarrow> Inr (s\<lparr>characters := AList.update i r (characters s)\<rparr>, r))"
  using assms by (simp add: update_character_def Let_def update_conv' split: sum.splits)

lemma update_character_Inr:
  "update_character e s i u = Inr (s', r) \<Longrightarrow>
     s' = s\<lparr>characters := AList.update i r (characters s)\<rparr>
     \<and> (\<exists>old. map_of (characters s) i = Some old \<and> cr_id r = cr_id old)"
  by (auto simp: update_character_def CharacterRead_init_def CharacterRead_model_dump_def
      CharacterUpdate_apply_def Let_def update_conv' split: if_splits option.splits sum.splits)

subsection \<open>Creating a character\<close>

text \<open>
  Claim C2, as amended. A create request whose identifier is already a key of the
  character store fails with the \<^verbatim>\<open>HTTPException\<close> of status 400 and leaves both stores
  as they were. A create request whose identifier is not a key, and whose payload
  supplies \<^verbatim>\<open>gender\<close>, succeeds with status 201: the record stored and returned is the
  payload, field by field, with the two clock readings as its timestamps; it is
  appended to the character store under the payload's identifier, every other entry of
  both stores stays as it was, and a read of the identifier returns it.
\<close>

theorem create_character_conflict:
  "(map_of (characters s) (cb_id c) \<noteq> None \<longrightarrow>
      create_character e s c = Inl (HTTPException 400 ''Character with this ID already exists'')
      \<and> response_status 201 (create_character e s c) = 400
      \<and> serve e s (POST_characters c) = s)
   \<and> (map_of (characters s) (cb_id c) = None \<and> cb_gender c = Some g \<longrightarrow>
      create_character e s c =
        Inr (s\<lparr>characters := characters s @
               [(cb_id c,
                 \<lparr>cr_id = cb_id c, cr_name = cb_name c, cr_role = cb_role c,
                  cr_alias = cb_alias c, cr_gender = g, cr_ability = cb_ability c,
                  cr_created_at = now_created e, cr_updated_at = now_updated e\<rparr>)]\<rparr>,
             \<lparr>cr_id = cb_id c, cr_name = cb_name c, cr_role = cb_role c,
              cr_alias = cb_alias c, cr_gender = g, cr_ability = cb_ability c,
              cr_created_at = now_created e, cr_updated_at = now_updated e\<rparr>)
      \<and> response_status 201 (create_character e s c) = 201
      \<and> animes (serve e s (POST_characters c)) = animes s
      \<and> characters (serve e s (POST_characters c)) = characters s @
            [(cb_id c,
              \<lparr>cr_id = cb_id c, cr_name = cb_name c, cr_role = cb_role c,
               cr_alias = cb_alias c, cr_gender = g, cr_ability = cb_ability c,
               cr_created_at = now_created e, cr_updated_at = now_updated e\<rparr>)]
      \<and> get_character (serve e s (POST_characters c)) (cb_id c) =
            Inr \<lparr>cr_id = cb_id c, cr_name = cb_name c, cr_role = cb_role c,
                 cr_alias = cb_alias c, cr_gender = g, cr_ability = cb_ability c,
                 cr_created_at = now_created e, cr_updated_at = now_updated e\<rparr>)"
  by (auto simp: create_character_eq response_status_def get_character_def Let_def map_add_def)

text \<open>
  Both halves on the example payload: refused on the store that holds its identifier,
  inserted into the empty store.
\<close>

theorem create_character_conflict_witness:
  "map_of (characters eren_state) (cb_id eren) \<noteq> None
   \<and> create_character example_env eren_state eren
       = Inl (HTTPException 400 ''Character with this ID already exists'')
   \<and> serve example_env eren_state (POST_characters eren) = eren_state
   \<and> map_of (characters init_state) (cb_id eren) = None \<and> cb_gender eren = Some ''Male''
   \<and> create_character example_env init_state eren = Inr (eren_state, eren_read)
   \<and> get_character (serve example_env init_state (POST_characters eren)) (cb_id eren)
       = Inr eren_read"
  using create_character_conflict [of eren_state eren example_env "''Male''"]
    create_character_conflict [of init_state eren example_env "''Male''"]
  by (simp add: example_defs character_defs)

text \<open>
  Claim C2 as stated fails: the example payload without \<^verbatim>\<open>gender\<close> passes
  \<^verbatim>\<open>CharacterCreate\<close>, its identifier is in no store, and \<^verbatim>\<open>CharacterRead(**...)\<close> refuses
  the \<^verbatim>\<open>None\<close>; nothing is inserted.
\<close>

theorem create_character_without_gender:
  "map_of (characters init_state) (cb_id (eren\<lparr>cb_gender := None\<rparr>)) = None
   \<and> create_character example_env init_state (eren\<lparr>cb_gender := None\<rparr>) = Inl ValidationError
   \<and> serve example_env init_state (POST_characters (eren\<lparr>cb_gender := None\<rparr>)) = init_state"
  by (simp add: create_character_eq init_state_def eren_def)

text \<open>
  Claim C9, as amended. When a create succeeds, \<^verbatim>\<open>created_at\<close> holds the clock reading
  of its own default factory and \<^verbatim>\<open>updated_at\<close> the reading of its own; the record
  returned is the payload with these two timestamps, it is the record inserted, and a
  read of its identifier returns it. The two timestamps are equal exactly when the two
  readings are.
\<close>

theorem create_character_stamps:
  "create_character e s c = Inr (s', r) \<Longrightarrow>
     cr_created_at r = now_created e \<and> cr_updated_at r = now_updated e
     \<and> r = \<lparr>cr_id = cb_id c, cr_name = cb_name c, cr_role = cb_role c,
              cr_alias = cb_alias c, cr_gender = cr_gender r, cr_ability = cb_ability c,
              cr_created_at = now_created e, cr_updated_at = now_updated e\<rparr>
     \<and> cb_gender c = Some (cr_gender r)
     \<and> s' = s\<lparr>characters := characters s @ [(cb_id c, r)]\<rparr>
     \<and> get_character s' (cb_id c) = Inr r
     \<and> response_status 201 (create_character e s c) = 201
     \<and> (cr_created_at r = cr_updated_at r) = (now_created e = now_updated e)"
  by (auto simp: create_character_eq response_status_def get_character_def Let_def map_add_def
      split: if_splits option.splits)

text \<open>The example payload, created while the clock stands still.\<close>

theorem create_character_stamps_witness:
  "create_character (example_env\<lparr>now_updated := now_created example_env\<rparr>) init_state eren
     = Inr (\<lparr>animes = [],
              characters = [(cb_id eren, eren_read\<lparr>cr_updated_at := cr_created_at eren_read\<rparr>)]\<rparr>,
            eren_read\<lparr>cr_updated_at := cr_created_at eren_read\<rparr>)
   \<and> cr_created_at (eren_read\<lparr>cr_updated_at := cr_created_at eren_read\<rparr>)
       = cr_updated_at (eren_read\<lparr>cr_updated_at := cr_created_at eren_read\<rparr>)"
  using create_character_stamps [of "example_env\<lparr>now_updated := now_created example_env\<rparr>"
      init_state eren
      "\<lparr>animes = [],
        characters = [(cb_id eren, eren_read\<lparr>cr_updated_at := cr_created_at eren_read\<rparr>)]\<rparr>"
      "eren_read\<lparr>cr_updated_at := cr_created_at eren_read\<rparr>"]
  by (simp add: example_defs character_defs)

text \<open>
  Claim C9 as stated fails: with the clock seven microseconds further at the second
  reading, the record returned has \<^verbatim>\<open>created_at\<close> and \<^verbatim>\<open>updated_at\<close> apart.
\<close>

theorem create_character_stamps_differ:
  "create_character example_env init_state eren = Inr (eren_state, eren_read)
   \<and> cr_created_at eren_read \<noteq> cr_updated_at eren_read"
  by (simp add: example_defs character_defs)

subsection \<open>Updating a character\<close>

text \<open>
  Claim C1, as amended. For an identifier in the character store and a body that sets
  none of \<^verbatim>\<open>name\<close>, \<^verbatim>\<open>role\<close> and \<^verbatim>\<open>ability\<close> to null, the update succeeds; each field the
  body sets takes the body's value (\<^verbatim>\<open>alias\<close> may be set to null), every other field
  keeps the stored value, \<^verbatim>\<open>id\<close> and \<^verbatim>\<open>created_at\<close> among them, and \<^verbatim>\<open>updated_at\<close> is
  the stored one whatever the clock reads. The record replaces the stored one under
  the same key.
\<close>

theorem update_character_overwrites:
  assumes "map_of (characters s) i = Some old"
    and "cu_name upd \<noteq> Given None" and "cu_role upd \<noteq> Given None"
    and "cu_ability upd \<noteq> Given None"
  shows "\<exists>r. update_character e s i upd = Inr (s\<lparr>characters := AList.update i r (characters s)\<rparr>, r)
    \<and> cr_id r = cr_id old \<and> cr_created_at r = cr_created_at old
    \<and> cr_updated_at r = cr_updated_at old
    \<and> cr_name r = (case cu_name upd of Given (Some v) \<Rightarrow> v | _ \<Rightarrow> cr_name old)
    \<and> cr_role r = (case cu_role upd of Given (Some v) \<Rightarrow> v | _ \<Rightarrow> cr_role old)
    \<and> cr_alias r = (case cu_alias upd of Given v \<Rightarrow> v | Unset \<Rightarrow> cr_alias old)
    \<and> cr_gender r = (case cu_gender upd of Given v \<Rightarrow> v | Unset \<Rightarrow> cr_gender old)
    \<and> cr_ability r = (case cu_ability upd of Given (Some v) \<Rightarrow> v | _ \<Rightarrow> cr_ability old)
    \<and> get_character (s\<lparr>characters := AList.update i r (characters s)\<rparr>) i = Inr r"
  using assms
  by (auto simp: update_character_eq CharacterRead_init_def CharacterUpdate_apply_def
      CharacterRead_model_dump_def overwrite_def get_character_def update_conv'
      split: kwarg.splits option.splits)

text \<open>The body \<^verbatim>\<open>{"name": "Sasuke Uchiha", "role": "Rival"}\<close> on the stored example.\<close>

theorem update_character_overwrites_witness:
  "map_of (characters eren_state) (cb_id eren) = Some eren_read
   \<and> update_character example_env eren_state (cb_id eren) sasuke_update
      = Inr (\<lparr>animes = [], characters = [(cb_id eren,
                 eren_read\<lparr>cr_name := ''Sasuke Uchiha'', cr_role := ''Rival''\<rparr>)]\<rparr>,
             eren_read\<lparr>cr_name := ''Sasuke Uchiha'', cr_role := ''Rival''\<rparr>)"
  using update_character_overwrites [of eren_state "cb_id eren" eren_read sasuke_update example_env]
  by (simp add: example_defs character_defs)

text \<open>
  Claim C1 as stated fails: the body \<^verbatim>\<open>{"name": null}\<close> sets \<^verbatim>\<open>name\<close>, and the stored
  \<^verbatim>\<open>name\<close> is not overwritten; \<^verbatim>\<open>CharacterRead(**stored)\<close> refuses the \<^verbatim>\<open>None\<close> and the
  store stays as it was.
\<close>

theorem update_character_null_name:
  "map_of (characters eren_state) (cb_id eren) = Some eren_read
   \<and> update_character example_env eren_state (cb_id eren) (empty_update\<lparr>cu_name := Given None\<rparr>)
      = Inl ValidationError
   \<and> serve example_env eren_state
        (PATCH_character (cb_id eren) (empty_update\<lparr>cu_name := Given None\<rparr>))
      = eren_state"
  by (simp add: example_defs character_defs)

text \<open>
  Claim C5. For an identifier in the character store, the update with the empty body
  succeeds, and the record it stores and returns has the \<^verbatim>\<open>id\<close>, \<^verbatim>\<open>name\<close>, \<^verbatim>\<open>role\<close>,
  \<^verbatim>\<open>alias\<close>, \<^verbatim>\<open>gender\<close>, \<^verbatim>\<open>ability\<close> and \<^verbatim>\<open>created_at\<close> of the stored one.
\<close>

theorem update_character_empty:
  assumes "map_of (characters s) i = Some old"
  shows "\<exists>r. update_character e s i empty_update
               = Inr (s\<lparr>characters := AList.update i r (characters s)\<rparr>, r)
    \<and> cr_id r = cr_id old \<and> cr_name r = cr_name old \<and> cr_role r = cr_role old
    \<and> cr_alias r = cr_alias old \<and> cr_gender r = cr_gender old
    \<and> cr_ability r = cr_ability old \<and> cr_created_at r = cr_created_at old"
  using assms
  by (auto simp: update_character_eq CharacterRead_init_def CharacterUpdate_apply_def
      CharacterRead_model_dump_def overwrite_def empty_update_def)

theorem update_character_empty_witness:
  "map_of (characters eren_state) (cb_id eren) = Some eren_read
   \<and> update_character example_env eren_state (cb_id eren) empty_update
      = Inr (eren_state, eren_read)"
  using update_character_empty [of eren_state "cb_id eren" eren_read example_env]
  by (simp add: example_defs character_defs)

subsection \<open>Listing characters\<close>

lemma list_characters_filter:
  "list_characters s name role alias gender ability =
     filter (character_matches name role alias gender ability) (map snd (characters s))"
  by (cases name; cases role; cases "alias"; cases gender; cases ability)
     (auto simp: list_characters_def character_matches_def intro!: filter_cong)

text \<open>
  Claim C4. The listing is the store's records, in the store's order, that match every
  supplied filter; it is empty exactly when no record matches, and it cannot raise;
  with no filter it is the whole store; the listing by name and role is the listing by
  name filtered by role, where the listing by name is the store filtered by name.
\<close>

theorem list_characters_conjunction:
  "list_characters s name role alias gender ability =
     filter (character_matches name role alias gender ability) (map snd (characters s))
   \<and> (list_characters s name role alias gender ability = []) =
       (\<not> list_ex (character_matches name role alias gender ability) (map snd (characters s)))
   \<and> list_characters s None None None None None = map snd (characters s)
   \<and> list_characters s (Some x) (Some y) None None None =
       filter (\<lambda>a. cr_role a = y) (list_characters s (Some x) None None None None)
   \<and> list_characters s (Some x) None None None None =
       filter (\<lambda>a. cr_name a = x) (map snd (characters s))"
proof -
  have "(filter P xs = []) = (\<not> list_ex P xs)" for P and xs :: "CharacterRead list"
    by (induction xs) auto
  then show ?thesis
    unfolding list_characters_filter
    by (auto simp: character_matches_def intro!: filter_cong)
qed

theorem list_characters_conjunction_witness:
  "list_characters eren_state (Some ''Eren Yeager'') (Some ''Protagonist'') None None None
     = [eren_read]
   \<and> list_characters eren_state (Some ''Eren Yeager'') (Some ''Rival'') None None None = []"
  using list_characters_conjunction [of eren_state "Some ''Eren Yeager''" "Some ''Protagonist''"
      None None None "''Eren Yeager''" "''Rival''"]
  by (simp add: example_defs list_characters_def character_matches_def)

section \<open>The anime store\<close>

text \<open>
  Validation of the embedded characters. After a full \<^verbatim>\<open>model_dump\<close> every key is there:
  a character comes back as it was, unless its \<^verbatim>\<open>gender\<close> is \<^verbatim>\<open>None\<close>. After a dump
  that excludes unset fields nothing is refused, and an identifier the body did not
  give is minted again.
\<close>

lemma CharacterBase_init_dump:
  "CharacterBase_init e k (CharacterBase_model_dump c) =
     (if cb_gender c = None then Inl ValidationError else Inr c)"
  by (cases "cb_gender c")
     (simp_all add: CharacterBase_init_def CharacterBase_model_dump_def overwrite_def)

lemma list_init_dump:
  "CharacterBase_list_init e k (map CharacterBase_model_dump cs) =
     (if list_all (\<lambda>c. cb_gender c \<noteq> None) cs then Inr cs else Inl ValidationError)"
  by (induction cs arbitrary: k) (simp_all add: CharacterBase_init_dump)

lemma CharacterBase_init_exclude_unset:
  "CharacterBase_init e k (CharacterBase_model_dump_exclude_unset (c, b)) =
     Inr (if b then c else c\<lparr>cb_id := mint_char_id e k\<rparr>)"
  by (cases "cb_gender c")
     (simp_all add: CharacterBase_init_def CharacterBase_model_dump_exclude_unset_def overwrite_def)

lemma list_init_exclude_unset:
  "CharacterBase_list_init e k (map CharacterBase_model_dump_exclude_unset cs) =
     Inr (supplied_characters e k cs)"
  by (induction cs arbitrary: k) (auto simp: CharacterBase_init_exclude_unset)

lemma supplied_characters_all_set:
  "list_all snd cs \<Longrightarrow> supplied_characters e k cs = map fst cs"
  by (induction cs arbitrary: k) auto

lemma AnimeRead_init_characters:
  "AnimeRead_init e kw = Inr r \<Longrightarrow> ak_characters kw = Some kws \<Longrightarrow>
     CharacterBase_list_init e 0 kws = Inr (ar_characters r)"
  by (auto simp: AnimeRead_init_def split: option.splits sum.splits)

lemma AnimeRead_init_id:
  "AnimeRead_init e kw = Inr r \<Longrightarrow> ar_id r = overwrite (mint_id e) (ak_id kw)"
  by (auto simp: AnimeRead_init_def split: option.splits sum.splits)

lemma AnimeRead_init_ok:
  assumes "ak_title kw \<noteq> None" "ak_genre kw \<noteq> None" "ak_seasons kw \<noteq> None"
    "ak_status kw \<noteq> None" "ak_streaming kw \<noteq> None" "ak_characters kw = Some kws"
    "CharacterBase_list_init e 0 kws = Inr cs"
  shows "\<exists>r. AnimeRead_init e kw = Inr r"
  using assms by (auto simp: AnimeRead_init_def split: option.splits)

subsection \<open>Creating an anime\<close>

lemma create_anime_eq:
  "create_anime e s a =
     (if valid_AnimeCreate a
      then (let r = \<lparr>ar_title = ab_title a, ar_genre = ab_genre a, ar_seasons = ab_seasons a,
                      ar_rating = ab_rating a, ar_status = ab_status a,
                      ar_streaming = ab_streaming a, ar_characters = ab_characters a,
                      ar_id = mint_id e, ar_created_at = now_created e,
                      ar_updated_at = now_updated e\<rparr>
            in Inr (s\<lparr>animes := AList.update (mint_id e) r (animes s)\<rparr>, r))
      else Inl ValidationError)"
  by (simp add: create_anime_def AnimeRead_init_def AnimeCreate_model_dump_def list_init_dump
      valid_AnimeCreate_def overwrite_def Let_def)

lemma create_anime_Inr:
  "create_anime e s a = Inr (s', r) \<Longrightarrow>
     s' = s\<lparr>animes := AList.update (mint_id e) r (animes s)\<rparr> \<and> ar_id r = mint_id e
     \<and> ar_characters r = ab_characters a"
  by (auto simp: create_anime_eq Let_def split: if_splits)

text \<open>
  Claim C6. \<^verbatim>\<open>create_anime\<close> never raises an \<^verbatim>\<open>HTTPException\<close>, whatever the stores
  hold, the status 400 of a conflict included. For every valid payload and every state
  of the stores it succeeds with status 201: the record is the payload with the minted
  identifier and the two timestamps, it is stored under that identifier, replacing
  whatever the key held, and a read of the identifier returns it.
\<close>

theorem create_anime_no_conflict:
  "create_anime e s a \<noteq> Inl (HTTPException code detail)
   \<and> (valid_AnimeCreate a \<longrightarrow>
        (\<exists>r. create_anime e s a = Inr (s\<lparr>animes := AList.update (mint_id e) r (animes s)\<rparr>, r)
           \<and> r = \<lparr>ar_title = ab_title a, ar_genre = ab_genre a, ar_seasons = ab_seasons a,
                    ar_rating = ab_rating a, ar_status = ab_status a,
                    ar_streaming = ab_streaming a, ar_characters = ab_characters a,
                    ar_id = mint_id e, ar_created_at = now_created e,
                    ar_updated_at = now_updated e\<rparr>
           \<and> get_anime (s\<lparr>animes := AList.update (mint_id e) r (animes s)\<rparr>) (mint_id e) = Inr r
           \<and> response_status 201 (create_anime e s a) = 201))"
  by (simp add: create_anime_eq Let_def get_anime_def update_conv' response_status_def)

text \<open>
  The example payload, created in the empty store and again in the store that already
  holds the identifier the factory mints.
\<close>

theorem create_anime_no_conflict_witness:
  "valid_AnimeCreate attack_on_titan
   \<and> create_anime example_env init_state attack_on_titan = Inr (aot_state, aot_read)
   \<and> create_anime example_env aot_state attack_on_titan = Inr (aot_state, aot_read)
   \<and> response_status 201 (create_anime example_env aot_state attack_on_titan) = 201"
  using create_anime_no_conflict [of example_env init_state attack_on_titan]
    create_anime_no_conflict [of example_env aot_state attack_on_titan]
  by (simp add: valid_AnimeCreate_def example_defs anime_defs overwrite_def
      response_status_def init_state_def)

subsection \<open>Updating an anime\<close>

lemma update_anime_eq:
  assumes "map_of (animes s) i = Some old"
  shows "update_anime e s i upd =
     (case AnimeRead_init e (AnimeUpdate_apply (AnimeRead_model_dump old) upd) of
        Inl err \<Rightarrow> Inl err
      | Inr r \<Rightarrow> Inr (s\<lparr>animes := AList.update i r (animes s)\<rparr>, r))"
  using assms by (simp add: update_anime_def Let_def update_conv' split: sum.splits)

lemma update_anime_Inr:
  assumes "update_anime e s i u = Inr (s', r)"
  shows "s' = s\<lparr>animes := AList.update i r (animes s)\<rparr>
     \<and> (\<exists>old. map_of (animes s) i = Some old \<and> ar_id r = ar_id old
          \<and> (au_characters u = Unset \<longrightarrow> ar_characters r = ar_characters old))"
proof -
  from assms obtain old where old: "map_of (animes s) i = Some old"
    by (auto simp: update_anime_def split: option.splits)
  let ?kw = "AnimeUpdate_apply (AnimeRead_model_dump old) u"
  from assms old have r: "AnimeRead_init e ?kw = Inr r"
    and s': "s' = s\<lparr>animes := AList.update i r (animes s)\<rparr>"
    by (auto simp: update_anime_eq split: sum.splits)
  have "ar_id r = ar_id old"
    using AnimeRead_init_id [OF r]
    by (simp add: AnimeUpdate_apply_def AnimeRead_model_dump_def overwrite_def)
  moreover have "ar_characters r = ar_characters old" if "au_characters u = Unset"
  proof -
    have "ak_characters ?kw = Some (map CharacterBase_model_dump (ar_characters old))"
      using that by (simp add: AnimeUpdate_apply_def AnimeRead_model_dump_def)
    from AnimeRead_init_characters [OF r this] show ?thesis
      by (simp add: list_init_dump split: if_splits)
  qed
  ultimately show ?thesis using old s' by simp
qed

text \<open>
  Claim C10, as amended. For an identifier in the anime store and a body that gives a
  list for \<^verbatim>\<open>characters\<close> and sets none of \<^verbatim>\<open>title\<close>, \<^verbatim>\<open>genre\<close>, \<^verbatim>\<open>seasons\<close>, \<^verbatim>\<open>status\<close> and
  \<^verbatim>\<open>streaming\<close> to null, the update succeeds and the characters of the stored record are
  the supplied ones and no others, in the body's order, whatever the list held before:
  each as the body gave it, with a freshly minted identifier where the body gave none.
  When the body gives every identifier, the stored list is the body's list.
\<close>

theorem update_anime_replaces_characters:
  assumes "map_of (animes s) i = Some old"
    and "au_characters upd = Given (Some cs)"
    and "au_title upd \<noteq> Given None" and "au_genre upd \<noteq> Given None"
    and "au_seasons upd \<noteq> Given None" and "au_status upd \<noteq> Given None"
    and "au_streaming upd \<noteq> Given None"
  shows "\<exists>r. update_anime e s i upd = Inr (s\<lparr>animes := AList.update i r (animes s)\<rparr>, r)
    \<and> ar_characters r = supplied_characters e 0 cs
    \<and> (list_all snd cs \<longrightarrow> ar_characters r = map fst cs)
    \<and> get_anime (s\<lparr>animes := AList.update i r (animes s)\<rparr>) i = Inr r"
proof -
  let ?kw = "AnimeUpdate_apply (AnimeRead_model_dump old) upd"
  have chars: "ak_characters ?kw = Some (map CharacterBase_model_dump_exclude_unset cs)"
    using assms(2) by (simp add: AnimeUpdate_apply_def)
  have req: "ak_title ?kw \<noteq> None" "ak_genre ?kw \<noteq> None" "ak_seasons ?kw \<noteq> None"
    "ak_status ?kw \<noteq> None" "ak_streaming ?kw \<noteq> None"
    using assms(3-7)
    by (auto simp: AnimeUpdate_apply_def AnimeRead_model_dump_def overwrite_def
        split: kwarg.splits)
  obtain r where r: "AnimeRead_init e ?kw = Inr r"
    using AnimeRead_init_ok [OF req chars list_init_exclude_unset] by blast
  have "ar_characters r = supplied_characters e 0 cs"
    using AnimeRead_init_characters [OF r chars] by (simp add: list_init_exclude_unset)
  then show ?thesis
    using r assms(1)
    by (auto simp: update_anime_eq get_anime_def update_conv' supplied_characters_all_set)
qed

text \<open>The example anime, its one character replaced by another given with its identifier.\<close>

theorem update_anime_replaces_characters_witness:
  "map_of (animes aot_state) (ar_id aot_read) = Some aot_read
   \<and> update_anime example_env aot_state (ar_id aot_read)
        (no_update\<lparr>au_characters := Given (Some [(sasuke, True)])\<rparr>)
      = Inr (\<lparr>animes = [(ar_id aot_read, aot_read\<lparr>ar_characters := [sasuke]\<rparr>)], characters = []\<rparr>,
             aot_read\<lparr>ar_characters := [sasuke]\<rparr>)"
  using update_anime_replaces_characters [of aot_state "ar_id aot_read" aot_read
      "no_update\<lparr>au_characters := Given (Some [(sasuke, True)])\<rparr>" "[(sasuke, True)]" example_env]
  by (simp add: example_defs anime_defs overwrite_def)

text \<open>
  Claim C10 as stated fails twice. A body that gives the list and sets \<^verbatim>\<open>title\<close> to null
  is refused by \<^verbatim>\<open>AnimeRead(**stored)\<close>, and the anime keeps the characters it had. A body
  whose character has no \<^verbatim>\<open>id\<close> succeeds, and the stored character carries an identifier
  minted while \<^verbatim>\<open>AnimeRead\<close> was built, not the one the body's object held.
\<close>

theorem update_anime_characters_not_supplied_list:
  "map_of (animes aot_state) (ar_id aot_read) = Some aot_read
   \<and> update_anime example_env aot_state (ar_id aot_read)
        (no_update\<lparr>au_title := Given None, au_characters := Given (Some [(sasuke, True)])\<rparr>)
      = Inl ValidationError
   \<and> serve example_env aot_state (PATCH_anime (ar_id aot_read)
        (no_update\<lparr>au_title := Given None, au_characters := Given (Some [(sasuke, True)])\<rparr>))
      = aot_state
   \<and> update_anime example_env aot_state (ar_id aot_read)
        (no_update\<lparr>au_characters := Given (Some [(sasuke, False)])\<rparr>)
      = Inr (\<lparr>animes = [(ar_id aot_read,
                 aot_read\<lparr>ar_characters := [sasuke\<lparr>cb_id := mint_char_id example_env 0\<rparr>]\<rparr>)],
               characters = []\<rparr>,
             aot_read\<lparr>ar_characters := [sasuke\<lparr>cb_id := mint_char_id example_env 0\<rparr>]\<rparr>)
   \<and> [sasuke\<lparr>cb_id := mint_char_id example_env 0\<rparr>] \<noteq> map fst [(sasuke, False)]"
  by (simp add: example_defs anime_defs overwrite_def)

subsection \<open>Listing animes\<close>

lemma filter_raising_addresses:
  "filter_raising
     (\<lambda>p. case addresses p of Inl err \<Rightarrow> Inl err
           | Inr chars \<Rightarrow> Inr (list_ex (\<lambda>char. cb_gender char = Some v) chars)) xs =
   (if xs = [] then Inr [] else Inl (AttributeError ''addresses''))"
  by (cases xs) (simp_all add: addresses_def)

text \<open>
  Claim C3, as amended. A listing with a \<^verbatim>\<open>gender\<close> filter raises the \<^verbatim>\<open>AttributeError\<close>
  of \<^verbatim>\<open>addresses\<close> exactly when some stored anime passes the other supplied filters: the
  attribute is read on the first anime that reaches the comprehension. When none does,
  the listing returns the empty list.
\<close>

theorem list_animes_gender:
  "list_animes s title genre seasons rating status streaming role (Some v) =
     (if list_animes s title genre seasons rating status streaming role None = Inr []
      then Inr [] else Inl (AttributeError ''addresses''))"
  by (simp add: list_animes_def Let_def filter_raising_addresses)

theorem list_animes_gender_witness:
  "list_animes aot_state None None None None None None None (Some ''Male'')
     = Inl (AttributeError ''addresses'')
   \<and> list_animes aot_state (Some ''Naruto'') None None None None None None (Some ''Male'')
     = Inr []"
  using list_animes_gender [of aot_state None None None None None None None "''Male''"]
    list_animes_gender [of aot_state "Some ''Naruto''" None None None None None None "''Male''"]
  by (simp add: list_animes_def example_defs)

text \<open>
  Claim C3 as stated fails: on the empty store the \<^verbatim>\<open>gender\<close> filter has no anime to
  read the attribute on, and the listing returns the empty list.
\<close>

theorem list_animes_gender_empty_store:
  "list_animes init_state None None None None None None None (Some ''Male'') = Inr []"
  by (simp add: list_animes_def init_state_def)

section \<open>The two stores over a run\<close>

subsection \<open>Identifiers\<close>

lemma store_ok_id:
  "store_ok s \<Longrightarrow> map_of (characters s) k = Some r \<Longrightarrow> cr_id r = k"
  "store_ok s \<Longrightarrow> map_of (animes s) k = Some a \<Longrightarrow> ar_id a = k"
  by (auto simp: store_ok_def list_all_iff dest!: map_of_SomeD)

text \<open>Every request keeps the keys unique and equal to the identifiers of their records.\<close>

lemma serve_store_ok:
  assumes ok: "store_ok s"
  shows "store_ok (serve e s req)"
proof (cases req)
  case (POST_characters c)
  show ?thesis
  proof (cases "create_character e s c")
    case (Inl err)
    with ok POST_characters show ?thesis by simp
  next
    case (Inr p)
    obtain s' r where p: "p = (s', r)" by (cases p)
    from create_character_Inr [OF Inr [unfolded p]] ok show ?thesis
      using POST_characters Inr p
      by (auto simp: store_ok_def distinct_update list_all_update)
  qed
next
  case (PATCH_character i u)
  show ?thesis
  proof (cases "update_character e s i u")
    case (Inl err)
    with ok PATCH_character show ?thesis by simp
  next
    case (Inr p)
    obtain s' r where p: "p = (s', r)" by (cases p)
    from update_character_Inr [OF Inr [unfolded p]] store_ok_id(1) [OF ok] ok show ?thesis
      using PATCH_character Inr p
      by (auto simp: store_ok_def distinct_update list_all_update)
  qed
next
  case (POST_animes a)
  show ?thesis
  proof (cases "create_anime e s a")
    case (Inl err)
    with ok POST_animes show ?thesis by simp
  next
    case (Inr p)
    obtain s' r where p: "p = (s', r)" by (cases p)
    from create_anime_Inr [OF Inr [unfolded p]] ok show ?thesis
      using POST_animes Inr p
      by (auto simp: store_ok_def distinct_update list_all_update)
  qed
next
  case (PATCH_anime i u)
  show ?thesis
  proof (cases "update_anime e s i u")
    case (Inl err)
    with ok PATCH_anime show ?thesis by simp
  next
    case (Inr p)
    obtain s' r where p: "p = (s', r)" by (cases p)
    from update_anime_Inr [OF Inr [unfolded p]] store_ok_id(2) [OF ok] ok show ?thesis
      using PATCH_anime Inr p
      by (auto simp: store_ok_def distinct_update list_all_update)
  qed
qed (use ok in simp_all)

lemma reachable_store_ok: "reachable s \<Longrightarrow> store_ok s"
proof (induction rule: reachable.induct)
  case start
  show ?case by (simp add: store_ok_def init_state_def)
next
  case (step s e req)
  then show ?case by (simp add: serve_store_ok)
qed

text \<open>A key of the character store stays, and its record keeps its identifier.\<close>

lemma serve_characters_key:
  assumes "map_of (characters s) k = Some r"
  shows "\<exists>r'. map_of (characters (serve e s req)) k = Some r' \<and> cr_id r' = cr_id r"
proof (cases req)
  case (POST_characters c)
  show ?thesis
  proof (cases "create_character e s c")
    case (Inl err)
    with assms POST_characters show ?thesis by simp
  next
    case (Inr p)
    obtain s' r0 where p: "p = (s', r0)" by (cases p)
    from create_character_Inr [OF Inr [unfolded p]] assms show ?thesis
      using POST_characters Inr p by (auto simp: update_conv')
  qed
next
  case (PATCH_character i u)
  show ?thesis
  proof (cases "update_character e s i u")
    case (Inl err)
    with assms PATCH_character show ?thesis by simp
  next
    case (Inr p)
    obtain s' r0 where p: "p = (s', r0)" by (cases p)
    from update_character_Inr [OF Inr [unfolded p]] assms show ?thesis
      using PATCH_character Inr p by (auto simp: update_conv')
  qed
next
  case (POST_animes a)
  show ?thesis
  proof (cases "create_anime e s a")
    case (Inl err)
    with assms POST_animes show ?thesis by simp
  next
    case (Inr p)
    obtain s' r0 where p: "p = (s', r0)" by (cases p)
    from create_anime_Inr [OF Inr [unfolded p]] assms show ?thesis
      using POST_animes Inr p by auto
  qed
next
  case (PATCH_anime i u)
  show ?thesis
  proof (cases "update_anime e s i u")
    case (Inl err)
    with assms PATCH_anime show ?thesis by simp
  next
    case (Inr p)
    obtain s' r0 where p: "p = (s', r0)" by (cases p)
    from update_anime_Inr [OF Inr [unfolded p]] assms show ?thesis
      using PATCH_anime Inr p by auto
  qed
qed (use assms in simp_all)

text \<open>
  The same for the anime store. A creation that mints a key already there replaces the
  record by one with that very identifier.
\<close>

lemma serve_animes_key:
  assumes "store_ok s" and "map_of (animes s) k = Some a"
  shows "\<exists>a'. map_of (animes (serve e s req)) k = Some a' \<and> ar_id a' = ar_id a"
proof (cases req)
  case (POST_characters c)
  show ?thesis
  proof (cases "create_character e s c")
    case (Inl err)
    with assms POST_characters show ?thesis by simp
  next
    case (Inr p)
    obtain s' r0 where p: "p = (s', r0)" by (cases p)
    from create_character_Inr [OF Inr [unfolded p]] assms show ?thesis
      using POST_characters Inr p by auto
  qed
next
  case (PATCH_character i u)
  show ?thesis
  proof (cases "update_character e s i u")
    case (Inl err)
    with assms PATCH_character show ?thesis by simp
  next
    case (Inr p)
    obtain s' r0 where p: "p = (s', r0)" by (cases p)
    from update_character_Inr [OF Inr [unfolded p]] assms show ?thesis
      using PATCH_character Inr p by auto
  qed
next
  case (POST_animes c)
  show ?thesis
  proof (cases "create_anime e s c")
    case (Inl err)
    with assms POST_animes show ?thesis by simp
  next
    case (Inr p)
    obtain s' r0 where p: "p = (s', r0)" by (cases p)
    from create_anime_Inr [OF Inr [unfolded p]] assms store_ok_id(2) [OF assms] show ?thesis
      using POST_animes Inr p by (auto simp: update_conv')
  qed
next
  case (PATCH_anime i u)
  show ?thesis
  proof (cases "update_anime e s i u")
    case (Inl err)
    with assms PATCH_anime show ?thesis by simp
  next
    case (Inr p)
    obtain s' r0 where p: "p = (s', r0)" by (cases p)
    from update_anime_Inr [OF Inr [unfolded p]] assms show ?thesis
      using PATCH_anime Inr p by (auto simp: update_conv')
  qed
qed (use assms in simp_all)

text \<open>
  Claim C8. In every state reached from the empty stores by serving requests, the keys
  of each store are distinct and each key maps to a record whose \<^verbatim>\<open>id\<close> is that key;
  and whatever request is served next, every key of either store is still a key
  afterwards, of a record with the identifier the record had before.
\<close>

theorem identifiers_unique_and_kept:
  assumes "reachable s"
  shows "distinct (map fst (characters s)) \<and> distinct (map fst (animes s))
    \<and> list_all (\<lambda>(k, r). cr_id r = k) (characters s)
    \<and> list_all (\<lambda>(k, a). ar_id a = k) (animes s)
    \<and> reachable (serve e s req)
    \<and> list_all (\<lambda>(k, r). \<exists>r'. map_of (characters (serve e s req)) k = Some r'
                            \<and> cr_id r' = cr_id r) (characters s)
    \<and> list_all (\<lambda>(k, a). \<exists>a'. map_of (animes (serve e s req)) k = Some a'
                            \<and> ar_id a' = ar_id a) (animes s)"
proof -
  have ok: "store_ok s" using assms by (rule reachable_store_ok)
  have c: "\<exists>r'. map_of (characters (serve e s req)) k = Some r' \<and> cr_id r' = cr_id r"
    if "(k, r) \<in> set (characters s)" for k r
  proof -
    from ok that have "map_of (characters s) k = Some r" by (simp add: store_ok_def)
    then show ?thesis by (rule serve_characters_key)
  qed
  have a: "\<exists>a'. map_of (animes (serve e s req)) k = Some a' \<and> ar_id a' = ar_id a"
    if "(k, a) \<in> set (animes s)" for k a
  proof -
    from ok that have "map_of (animes s) k = Some a" by (simp add: store_ok_def)
    then show ?thesis by (rule serve_animes_key [OF ok])
  qed
  from ok c a assms show ?thesis
    by (auto simp: store_ok_def list_all_iff intro: reachable.step)
qed

text \<open>The store after one creation, and the identifier of its record after an update.\<close>

theorem identifiers_unique_and_kept_witness:
  "reachable eren_state
   \<and> distinct (map fst (characters eren_state))
   \<and> list_all (\<lambda>(k, r). cr_id r = k) (characters eren_state)
   \<and> map_of (characters (serve example_env eren_state (PATCH_character (cb_id eren) sasuke_update)))
        (cb_id eren) = Some (eren_read\<lparr>cr_name := ''Sasuke Uchiha'', cr_role := ''Rival''\<rparr>)
   \<and> cr_id (eren_read\<lparr>cr_name := ''Sasuke Uchiha'', cr_role := ''Rival''\<rparr>) = cr_id eren_read"
proof -
  have "serve example_env init_state (POST_characters eren) = eren_state"
    by (simp add: example_defs character_defs)
  with reachable.step [OF reachable.start, of example_env "POST_characters eren"]
  have r: "reachable eren_state" by simp
  from r identifiers_unique_and_kept [OF r, of example_env "PATCH_character (cb_id eren) sasuke_update"]
  show ?thesis
    by (simp add: example_defs character_defs)
qed

subsection \<open>The embedded characters of an anime\<close>

lemma serve_character_request:
  "is_character_request req \<Longrightarrow> animes (serve e s req) = animes s"
proof (cases req)
  case (POST_characters c)
  show ?thesis
  proof (cases "create_character e s c")
    case (Inl err)
    with POST_characters show ?thesis by simp
  next
    case (Inr p)
    obtain s' r where p: "p = (s', r)" by (cases p)
    from create_character_Inr [OF Inr [unfolded p]] show ?thesis
      using POST_characters Inr p by simp
  qed
next
  case (PATCH_character i u)
  show ?thesis
  proof (cases "update_character e s i u")
    case (Inl err)
    with PATCH_character show ?thesis by simp
  next
    case (Inr p)
    obtain s' r where p: "p = (s', r)" by (cases p)
    from update_character_Inr [OF Inr [unfolded p]] show ?thesis
      using PATCH_character Inr p by simp
  qed
qed simp_all

lemma serve_all_character_requests:
  "list_all is_character_request (map snd reqs) \<Longrightarrow> animes (serve_all s reqs) = animes s"
  by (induction reqs arbitrary: s) (auto simp: serve_character_request)

lemma serve_keeps_characters:
  assumes "keeps_characters i (e, req)" and "map_of (animes s) i = Some a"
  shows "\<exists>a'. map_of (animes (serve e s req)) i = Some a' \<and> ar_characters a' = ar_characters a"
proof (cases req)
  case (POST_animes c)
  show ?thesis
  proof (cases "create_anime e s c")
    case (Inl err)
    with assms POST_animes show ?thesis by simp
  next
    case (Inr p)
    obtain s' r where p: "p = (s', r)" by (cases p)
    from create_anime_Inr [OF Inr [unfolded p]] assms show ?thesis
      using POST_animes Inr p by (auto simp: update_conv')
  qed
next
  case (PATCH_anime j u)
  show ?thesis
  proof (cases "update_anime e s j u")
    case (Inl err)
    with assms PATCH_anime show ?thesis by simp
  next
    case (Inr p)
    obtain s' r where p: "p = (s', r)" by (cases p)
    from update_anime_Inr [OF Inr [unfolded p]] assms show ?thesis
      using PATCH_anime Inr p by (auto simp: update_conv')
  qed
next
  case (POST_characters c)
  then have "is_character_request req" by simp
  from serve_character_request [OF this] assms show ?thesis by simp
next
  case (PATCH_character j u)
  then have "is_character_request req" by simp
  from serve_character_request [OF this] assms show ?thesis by simp
qed (use assms in simp_all)

lemma serve_all_keeps_characters:
  "list_all (keeps_characters i) reqs \<Longrightarrow> map_of (animes s) i = Some a \<Longrightarrow>
     \<exists>a'. map_of (animes (serve_all s reqs)) i = Some a' \<and> ar_characters a' = ar_characters a"
proof (induction reqs arbitrary: s a)
  case Nil
  then show ?case by simp
next
  case (Cons q reqs)
  obtain e req where q: "q = (e, req)" by (cases q)
  from Cons.prems q have k: "keeps_characters i (e, req)"
    and ks: "list_all (keeps_characters i) reqs"
    by simp_all
  from serve_keeps_characters [OF k Cons.prems(2)]
  obtain a1 where a1: "map_of (animes (serve e s req)) i = Some a1"
    and c1: "ar_characters a1 = ar_characters a" by blast
  from Cons.IH [OF ks a1] c1 q show ?case by auto
qed

text \<open>
  Claim C7. For an anime in the anime store: after any sequence of requests to the
  character routes the anime store is what it was, and a read of the anime returns the
  very record; after any sequence of requests none of which updates this anime with a
  body that sets \<^verbatim>\<open>characters\<close>, or creates an anime under its identifier anew, a read
  returns a record with the same list of characters; a read returns the stored record;
  and a creation stores the list of its payload, which the read after it returns.
\<close>

theorem anime_characters_snapshot:
  assumes "map_of (animes s) i = Some a"
  shows "(list_all is_character_request (map snd reqs) \<longrightarrow>
            animes (serve_all s reqs) = animes s \<and> get_anime (serve_all s reqs) i = Inr a)
    \<and> (list_all (keeps_characters i) reqs \<longrightarrow>
          (\<exists>a'. get_anime (serve_all s reqs) i = Inr a'
                \<and> ar_characters a' = ar_characters a))
    \<and> get_anime s i = Inr a
    \<and> (\<forall>s' r. create_anime e s c = Inr (s', r) \<longrightarrow>
          ar_characters r = ab_characters c \<and> get_anime s' (ar_id r) = Inr r)"
proof -
  have 1: "animes (serve_all s reqs) = animes s \<and> get_anime (serve_all s reqs) i = Inr a"
    if "list_all is_character_request (map snd reqs)"
    using serve_all_character_requests [OF that] assms by (simp add: get_anime_def)
  have 2: "\<exists>a'. get_anime (serve_all s reqs) i = Inr a' \<and> ar_characters a' = ar_characters a"
    if "list_all (keeps_characters i) reqs"
    using serve_all_keeps_characters [OF that assms] by (auto simp: get_anime_def)
  have 3: "get_anime s i = Inr a" using assms by (simp add: get_anime_def)
  have 4: "ar_characters r = ab_characters c \<and> get_anime s' (ar_id r) = Inr r"
    if "create_anime e s c = Inr (s', r)" for s' r
    using create_anime_Inr [OF that] by (simp add: get_anime_def update_conv')
  from 1 2 3 4 show ?thesis by blast
qed

text \<open>
  The example anime through a creation, an update and a read of a character, and
  through an update of its own \<^verbatim>\<open>status\<close>.
\<close>

theorem anime_characters_snapshot_witness:
  "map_of (animes aot_state) (ar_id aot_read) = Some aot_read
   \<and> list_all is_character_request
        (map snd [(example_env, POST_characters eren),
                  (example_env, PATCH_character (cb_id eren) sasuke_update),
                  (example_env, GET_character (cb_id eren))])
   \<and> animes (serve_all aot_state
        [(example_env, POST_characters eren),
         (example_env, PATCH_character (cb_id eren) sasuke_update),
         (example_env, GET_character (cb_id eren))]) = animes aot_state
   \<and> list_all (keeps_characters (ar_id aot_read))
        [(example_env, POST_characters eren),
         (example_env, PATCH_anime (ar_id aot_read)
            (no_update\<lparr>au_status := Given (Some ''Ongoing'')\<rparr>))]
   \<and> get_anime (serve_all aot_state
        [(example_env, POST_characters eren),
         (example_env, PATCH_anime (ar_id aot_read)
            (no_update\<lparr>au_status := Given (Some ''Ongoing'')\<rparr>))])
        (ar_id aot_read) = Inr (aot_read\<lparr>ar_status := ''Ongoing''\<rparr>)
   \<and> create_anime example_env init_state attack_on_titan = Inr (aot_state, aot_read)
   \<and> ar_characters aot_read = ab_characters attack_on_titan"
  using anime_characters_snapshot [of aot_state "ar_id aot_read" aot_read
      "[(example_env, POST_characters eren),
        (example_env, PATCH_character (cb_id eren) sasuke_update),
        (example_env, GET_character (cb_id eren))]" example_env attack_on_titan]
    anime_characters_snapshot [of aot_state "ar_id aot_read" aot_read
      "[(example_env, POST_characters eren),
        (example_env, PATCH_anime (ar_id aot_read)
           (no_update\<lparr>au_status := Given (Some ''Ongoing'')\<rparr>))]"
      example_env attack_on_titan]
  by (simp add: example_defs anime_defs character_defs)

end
